theory Spec2Isabelle
  imports Main "HOL-Library.Sublist"
begin

section \<open>The dipy tensor adapters of nipype (nipype/interfaces/dipy/tensors.py)\<close>

text \<open>
  The module defines three workflow adapters, \<open>DKI\<close>, \<open>DTI\<close> and \<open>TensorMode\<close>. Each one
  loads a diffusion image, calls a model fit of the dipy library and writes derived
  volumes with nibabel. The numerical libraries (numpy, nibabel, dipy) and the methods the
  adapters inherit from their base class are not part of the module; they are the fields
  of the record \<open>env\<close> below, so every theorem holds for all of their behaviours.
  All library objects (arrays, affines, gradient tables, fitted models) are values of one
  type \<open>'v\<close>, as Python does not tell them apart by type either.
\<close>

subsection \<open>Data\<close>

type_synonym path = string

text \<open>The exceptions the adapters can end with.\<close>

datatype error =
    AttributeError string
  | TypeError
  | IndexError
  | IOError path
  | LibraryError string

text \<open>A nibabel image: \<open>nb.Nifti1Image(data, affine)\<close>, read by \<open>get_data()\<close> and \<open>affine\<close>.\<close>

datatype 'v nifti = Nifti1Image (get_data: 'v) (affine: 'v)

text \<open>
  The values of \<open>self.inputs\<close>, as far as the module reads it: \<open>in_file\<close> and the
  optional \<open>mask_file\<close> (\<open>None\<close> is traits' \<open>Undefined\<close>, what \<open>isdefined\<close> tests).
  Whether an adapter can read \<open>mask_file\<close> at all depends on the input specification
  its class binds (\<open>read_input\<close> below); \<open>in_file\<close> is a trait of the base specification,
  which every adapter has.
\<close>

record inputs =
  in_file :: path
  mask_file :: "path option"

datatype model = DiffusionKurtosisModel | TensorModel

text \<open>What a run does to the outside: files read, fits called, files written, log lines.\<close>

datatype 'v event =
    Load path
  | Fit model 'v 'v "'v option"
  | Save path "'v nifti"
  | Info string

type_synonym 'v files = "path \<Rightarrow> 'v nifti option"

text \<open>
  The code the module calls and does not define.
  \<^item> \<open>get_gradient_table\<close>: the outcome of \<open>self._get_gradient_table()\<close> (base class);
  \<^item> \<open>gen_filename\<close>: \<open>self._gen_filename(name)\<close> (base class);
  \<^item> \<open>model_fit k gtab data mask\<close>: \<open>Model(gtab).fit(data, mask)\<close> of dipy, for the
    model class \<open>k\<close>;
  \<^item> \<open>lower_triangular\<close>: the fit's method of that name;
  \<^item> \<open>nifti1_symmat\<close>: \<open>dipy.io.utils.nifti1_symmat(data, affine)\<close>;
  \<^item> \<open>py_getattr obj name\<close>: the attribute \<open>name\<close> of \<open>obj\<close>, \<open>None\<close> when it has none;
  \<^item> \<open>astype\<close>: numpy's \<open>array.astype(dtype)\<close>;
  \<^item> \<open>last_axis_0\<close>: numpy's \<open>array[..., 0]\<close>, failing on an empty last axis;
  \<^item> \<open>gt_scalar\<close>: numpy's elementwise \<open>array > n\<close>;
  \<^item> \<open>writable\<close>: whether a file can be written at a path.
\<close>

record 'v env =
  get_gradient_table :: "error + 'v"
  gen_filename :: "string \<Rightarrow> path"
  model_fit :: "model \<Rightarrow> 'v \<Rightarrow> 'v \<Rightarrow> 'v option \<Rightarrow> error + 'v"
  lower_triangular :: "'v \<Rightarrow> 'v"
  nifti1_symmat :: "'v \<Rightarrow> 'v \<Rightarrow> 'v nifti"
  py_getattr :: "'v \<Rightarrow> string \<Rightarrow> 'v option"
  astype :: "'v \<Rightarrow> string \<Rightarrow> 'v"
  last_axis_0 :: "'v \<Rightarrow> error + 'v"
  gt_scalar :: "'v \<Rightarrow> int \<Rightarrow> 'v"
  writable :: "path \<Rightarrow> bool"

subsection \<open>Effects: a computation reads and writes files, emits events and may raise\<close>

text \<open>
  A computation takes the files on disk and returns its result (\<open>Inl\<close> an exception),
  the files afterwards and the events it emitted, in order. An exception ends the
  computation; the events emitted before it stay.
\<close>

definition ret :: "'x \<Rightarrow> 'v files \<Rightarrow> (error + 'x) \<times> 'v files \<times> 'v event list" where
  "ret x fs = (Inr x, fs, [])"

definition lift :: "error + 'x \<Rightarrow> 'v files \<Rightarrow> (error + 'x) \<times> 'v files \<times> 'v event list" where
  "lift r fs = (r, fs, [])"

definition andthen ::
  "('v files \<Rightarrow> (error + 'x) \<times> 'v files \<times> 'v event list) \<Rightarrow>
   ('x \<Rightarrow> 'v files \<Rightarrow> (error + 'y) \<times> 'v files \<times> 'v event list) \<Rightarrow>
   'v files \<Rightarrow> (error + 'y) \<times> 'v files \<times> 'v event list" where
  "andthen m k fs =
     (case m fs of
        (Inl e, fs', es) \<Rightarrow> (Inl e, fs', es)
      | (Inr x, fs', es) \<Rightarrow> (case k x fs' of (r, fs'', es') \<Rightarrow> (r, fs'', es @ es')))"

definition result_of :: "(error + 'x) \<times> 'v files \<times> 'v event list \<Rightarrow> error + 'x" where
  "result_of r = fst r"

definition files_of :: "(error + 'x) \<times> 'v files \<times> 'v event list \<Rightarrow> 'v files" where
  "files_of r = fst (snd r)"

definition events_of :: "(error + 'x) \<times> 'v files \<times> 'v event list \<Rightarrow> 'v event list" where
  "events_of r = snd (snd r)"

text \<open>\<open>nb.load(p)\<close>: the image stored at \<open>p\<close>; raises when there is none.\<close>

definition nb_load :: "path \<Rightarrow> 'v files \<Rightarrow> (error + 'v nifti) \<times> 'v files \<times> 'v event list" where
  "nb_load p fs =
     (case fs p of
        None \<Rightarrow> (Inl (IOError p), fs, [Load p])
      | Some img \<Rightarrow> (Inr img, fs, [Load p]))"

text \<open>\<open>nb.save(img, p)\<close> and \<open>img.to_filename(p)\<close>: store the image at \<open>p\<close>.\<close>

definition nb_save ::
  "'v env \<Rightarrow> 'v nifti \<Rightarrow> path \<Rightarrow> 'v files \<Rightarrow> (error + unit) \<times> 'v files \<times> 'v event list" where
  "nb_save ext img p fs =
     (if writable ext p then (Inr (), fs(p \<mapsto> img), [Save p img])
      else (Inl (IOError p), fs, []))"

text \<open>\<open>Model(gtab).fit(data, mask)\<close>.\<close>

definition fit_model ::
  "'v env \<Rightarrow> model \<Rightarrow> 'v \<Rightarrow> 'v \<Rightarrow> 'v option \<Rightarrow>
   'v files \<Rightarrow> (error + 'v) \<times> 'v files \<times> 'v event list" where
  "fit_model ext k gtab data msk fs = (model_fit ext k gtab data msk, fs, [Fit k gtab data msk])"

text \<open>\<open>IFLOGGER.info(msg)\<close>.\<close>

definition info :: "string \<Rightarrow> 'v files \<Rightarrow> (error + unit) \<times> 'v files \<times> 'v event list" where
  "info msg fs = (Inr (), fs, [Info msg])"

text \<open>\<open>getattr(obj, name)\<close> and \<open>obj.name\<close>: AttributeError when the attribute is missing.\<close>

definition getattr2 :: "'v env \<Rightarrow> 'v \<Rightarrow> string \<Rightarrow> error + 'v" where
  "getattr2 ext obj name =
     (case py_getattr ext obj name of None \<Rightarrow> Inl (AttributeError name) | Some v \<Rightarrow> Inr v)"

text \<open>
  \<open>getattr(obj)\<close>, the builtin called with its first argument only: Python raises
  \<open>TypeError: getattr expected at least 2 arguments, got 1\<close>, whatever \<open>obj\<close> is.
\<close>

definition getattr1 :: "'v \<Rightarrow> error + 'v" where
  "getattr1 obj = Inl TypeError"

subsection \<open>The classes and their specifications\<close>

datatype spec_class =
    DKIInputSpec | DKIOutputSpec
  | DTIInputSpec | DTIOutputSpec
  | TensorModeInputSpec | TensorModeOutputSpec

datatype adapter = DKI | DTI | TensorMode

text \<open>The traits each specification class declares in its body.\<close>

fun declared_traits :: "spec_class \<Rightarrow> string list" where
  "declared_traits DKIInputSpec = [''mask_file'']"
| "declared_traits DKIOutputSpec =
     [''out_file'', ''fa_file'', ''md_file'', ''rd_file'', ''ad_file'',
      ''mk_file'', ''ak_file'', ''rk_file'']"
| "declared_traits DTIInputSpec = [''mask_file'']"
| "declared_traits DTIOutputSpec =
     [''out_file'', ''fa_file'', ''md_file'', ''rd_file'', ''ad_file'']"
| "declared_traits TensorModeInputSpec = [''mask_file'']"
| "declared_traits TensorModeOutputSpec = [''out_file'']"

text \<open>
  The class attributes \<open>input_spec\<close> and \<open>output_spec\<close> as each adapter's class body
  assigns them; \<open>None\<close> when the body has no such assignment and the attribute is the
  base class's.
\<close>

fun input_spec :: "adapter \<Rightarrow> spec_class option" where
  "input_spec DKI = None"
| "input_spec DTI = Some DTIInputSpec"
| "input_spec TensorMode = Some TensorModeInputSpec"

fun output_spec :: "adapter \<Rightarrow> spec_class option" where
  "output_spec DKI = None"
| "output_spec DTI = Some DTIOutputSpec"
| "output_spec TensorMode = Some TensorModeOutputSpec"

text \<open>
  Modelled from the spec: \<open>DipyBaseInterfaceInputSpec\<close>, the input specification of the base
  class (nipype/interfaces/dipy/base.py), is imported by the module and not defined in it.
  The spec gives the inputs as the image volume, the b-vectors, the b-values and the
  optional mask; the mask is the trait each specification of this module adds, which
  leaves the other three to the base: \<open>in_file\<close>, \<open>in_bvec\<close> and \<open>in_bval\<close>, the inputs
  the docstrings set.
\<close>

definition base_input_traits :: "string list" where
  "base_input_traits = [''in_file'', ''in_bvec'', ''in_bval'']"

text \<open>
  The traits of \<open>self.inputs\<close>: those of the base specification and those of the
  specification the adapter's class binds, if it binds one.
\<close>

definition input_traits :: "adapter \<Rightarrow> string list" where
  "input_traits a =
     base_input_traits @ (case input_spec a of None \<Rightarrow> [] | Some s \<Rightarrow> declared_traits s)"

text \<open>
  Reading \<open>self.inputs.name\<close>: the value of the trait, or AttributeError when the
  specification of the adapter has no trait of that name.
\<close>

definition read_input :: "adapter \<Rightarrow> string \<Rightarrow> 'x \<Rightarrow> error + 'x" where
  "read_input a name v =
     (if name \<in> set (input_traits a) then Inr v else Inl (AttributeError name))"

text \<open>The optional mask of \<open>DKI\<close> and \<open>DTI\<close>, in the adapter \<open>a\<close>:
  \<^verbatim>\<open>
  mask = None
  if isdefined(self.inputs.mask_file):
      mask = nb.load(self.inputs.mask_file).get_data()
  \<close>
\<close>

definition load_mask ::
  "adapter \<Rightarrow> inputs \<Rightarrow> 'v files \<Rightarrow> (error + 'v option) \<times> 'v files \<times> 'v event list" where
  "load_mask a inp =
     andthen (lift (read_input a ''mask_file'' (mask_file inp))) (\<lambda>mf.
     case mf of
       None \<Rightarrow> ret None
     | Some m \<Rightarrow> andthen (nb_load m) (\<lambda>mi. ret (Some (get_data mi))))"

subsection \<open>DKI\<close>

text \<open>The loop of \<open>DKI._run_interface\<close>:
  \<^verbatim>\<open>
  for metric in ['fa', 'md', 'rd', 'ad', 'mk', 'ak', 'rk']:
      data = getattr(kurtosis_fit.metric).astype('float32')
      out_name = self._gen_filename(metric)
      nb.Nifti1Image(data, affine).to_filename(out_name)
      IFLOGGER.info('DKI {metric} image saved as {i}'.format(i=out_name, metric=metric))
  \<close>
  The argument of \<open>getattr\<close> is the attribute called \<open>metric\<close> of the fit, not the attribute
  the loop variable names; it is evaluated first, then \<open>getattr\<close> is called with it alone.
\<close>

fun DKI_metrics ::
  "'v env \<Rightarrow> 'v \<Rightarrow> 'v \<Rightarrow> string list \<Rightarrow> 'v files \<Rightarrow> (error + unit) \<times> 'v files \<times> 'v event list" where
  "DKI_metrics ext kurtosis_fit aff [] = ret ()"
| "DKI_metrics ext kurtosis_fit aff (metric # metrics) =
     andthen (lift (getattr2 ext kurtosis_fit ''metric'')) (\<lambda>arg.
     andthen (lift (getattr1 arg)) (\<lambda>attr.
     let data = astype ext attr ''float32'';
         out_name = gen_filename ext metric
     in
     andthen (nb_save ext (Nifti1Image data aff) out_name) (\<lambda>_.
     andthen (info (''DKI '' @ metric @ '' image saved as '' @ out_name)) (\<lambda>_.
     DKI_metrics ext kurtosis_fit aff metrics))))"

text \<open>
  \<open>DKI._run_interface\<close>. The class of \<open>DKI\<close> binds no input specification, so the read
  of \<open>self.inputs.mask_file\<close> is a read of a trait \<open>DKI\<close> does not have. The log line
  after the tensor parameters image is the string literal of the source, which holds the
  text \<open>.format(i=out_file)\<close> inside its quotes.
\<close>

definition DKI_run_interface ::
  "'v env \<Rightarrow> inputs \<Rightarrow> 'r \<Rightarrow> 'v files \<Rightarrow> (error + 'r) \<times> 'v files \<times> 'v event list" where
  "DKI_run_interface ext inp runtime =
     andthen (lift (get_gradient_table ext)) (\<lambda>gtab.
     andthen (nb_load (in_file inp)) (\<lambda>img.
     let data = get_data img;
         aff = affine img
     in
     andthen (load_mask DKI inp) (\<lambda>mask.
     andthen (fit_model ext DiffusionKurtosisModel gtab data mask) (\<lambda>kurtosis_fit.
     let lt = lower_triangular ext kurtosis_fit;
         img' = nifti1_symmat ext lt aff;
         out_file = gen_filename ext ''dki''
     in
     andthen (nb_save ext img' out_file) (\<lambda>_.
     andthen (info ''DKI parameters image saved as {i}.format(i=out_file)'') (\<lambda>_.
     andthen (DKI_metrics ext kurtosis_fit aff
                [''fa'', ''md'', ''rd'', ''ad'', ''mk'', ''ak'', ''rk'']) (\<lambda>_.
     ret runtime)))))))"

text \<open>
  The \<open>outputs\<close> dictionary of \<open>_list_outputs\<close>: trait name to value. The method starts
  from \<open>self._outputs().get()\<close> (base class), which is its argument \<open>outputs\<close> here.
\<close>

datatype trait_value = Undefined | Filename path

type_synonym outputs = "string \<Rightarrow> trait_value option"

text \<open>
  \<^verbatim>\<open>
  for metric in ['fa', 'md', 'rd', 'ad', 'mk', 'ak', 'rk']:
      outputs['{}'.format(metric)] = self._gen_filename(metric)
  \<close>
\<close>

fun DKI_assign :: "'v env \<Rightarrow> string list \<Rightarrow> outputs \<Rightarrow> outputs" where
  "DKI_assign ext [] outputs = outputs"
| "DKI_assign ext (metric # metrics) outputs =
     DKI_assign ext metrics (outputs(metric \<mapsto> Filename (gen_filename ext metric)))"

definition DKI_list_outputs :: "'v env \<Rightarrow> outputs \<Rightarrow> outputs" where
  "DKI_list_outputs ext outputs =
     DKI_assign ext [''fa'', ''md'', ''rd'', ''ad'', ''mk'', ''ak'', ''rk'']
       (outputs(''out_file'' \<mapsto> Filename (gen_filename ext ''dki'')))"

subsection \<open>DTI\<close>

text \<open>
  \<^verbatim>\<open>
  for metric in ["fa", "md", "rd", "ad"]:
      data = getattr(ten_fit,metric).astype("float32")
      out_name = self._gen_filename(metric)
      nb.Nifti1Image(data, affine).to_filename(out_name)
      IFLOGGER.info('DTI {metric} image saved as {i}'.format(i=out_name, metric=metric))
  \<close>
\<close>

fun DTI_metrics ::
  "'v env \<Rightarrow> 'v \<Rightarrow> 'v \<Rightarrow> string list \<Rightarrow> 'v files \<Rightarrow> (error + unit) \<times> 'v files \<times> 'v event list" where
  "DTI_metrics ext ten_fit aff [] = ret ()"
| "DTI_metrics ext ten_fit aff (metric # metrics) =
     andthen (lift (getattr2 ext ten_fit metric)) (\<lambda>attr.
     let data = astype ext attr ''float32'';
         out_name = gen_filename ext metric
     in
     andthen (nb_save ext (Nifti1Image data aff) out_name) (\<lambda>_.
     andthen (info (''DTI '' @ metric @ '' image saved as '' @ out_name)) (\<lambda>_.
     DTI_metrics ext ten_fit aff metrics)))"

definition DTI_run_interface ::
  "'v env \<Rightarrow> inputs \<Rightarrow> 'r \<Rightarrow> 'v files \<Rightarrow> (error + 'r) \<times> 'v files \<times> 'v event list" where
  "DTI_run_interface ext inp runtime =
     andthen (lift (get_gradient_table ext)) (\<lambda>gtab.
     andthen (nb_load (in_file inp)) (\<lambda>img.
     let data = get_data img;
         aff = affine img
     in
     andthen (load_mask DTI inp) (\<lambda>mask.
     andthen (fit_model ext TensorModel gtab data mask) (\<lambda>ten_fit.
     let lt = lower_triangular ext ten_fit;
         img' = nifti1_symmat ext lt aff;
         out_file = gen_filename ext ''dti''
     in
     andthen (nb_save ext img' out_file) (\<lambda>_.
     andthen (info (''DTI parameters image saved as '' @ out_file)) (\<lambda>_.
     andthen (DTI_metrics ext ten_fit aff [''fa'', ''md'', ''rd'', ''ad'']) (\<lambda>_.
     ret runtime)))))))"

text \<open>
  \<^verbatim>\<open>
  for metric in ["fa", "md", "rd", "ad"]:
      outputs["{}_file".format(metric)] = self._gen_filename(metric)
  \<close>
\<close>

fun DTI_assign :: "'v env \<Rightarrow> string list \<Rightarrow> outputs \<Rightarrow> outputs" where
  "DTI_assign ext [] outputs = outputs"
| "DTI_assign ext (metric # metrics) outputs =
     DTI_assign ext metrics (outputs(metric @ ''_file'' \<mapsto> Filename (gen_filename ext metric)))"

definition DTI_list_outputs :: "'v env \<Rightarrow> outputs \<Rightarrow> outputs" where
  "DTI_list_outputs ext outputs =
     DTI_assign ext [''fa'', ''md'', ''rd'', ''ad'']
       (outputs(''out_file'' \<mapsto> Filename (gen_filename ext ''dti'')))"

subsection \<open>TensorMode\<close>

text \<open>
  \<open>TensorMode._run_interface\<close>: the image is loaded before the gradient table is built,
  and the mask is \<open>data[..., 0] > 50\<close>.
\<close>

definition TensorMode_run_interface ::
  "'v env \<Rightarrow> inputs \<Rightarrow> 'r \<Rightarrow> 'v files \<Rightarrow> (error + 'r) \<times> 'v files \<times> 'v event list" where
  "TensorMode_run_interface ext inp runtime =
     andthen (nb_load (in_file inp)) (\<lambda>img.
     let data = get_data img;
         aff = affine img
     in
     andthen (lift (get_gradient_table ext)) (\<lambda>gtab.
     andthen (lift (last_axis_0 ext data)) (\<lambda>first.
     let mask = gt_scalar ext first 50 in
     andthen (fit_model ext TensorModel gtab data (Some mask)) (\<lambda>tenfit.
     andthen (lift (getattr2 ext tenfit ''mode'')) (\<lambda>mode_data.
     let img' = Nifti1Image mode_data aff;
         out_file = gen_filename ext ''mode''
     in
     andthen (nb_save ext img' out_file) (\<lambda>_.
     andthen (info (''Tensor mode image saved as '' @ out_file)) (\<lambda>_.
     ret runtime)))))))"

definition TensorMode_list_outputs :: "'v env \<Rightarrow> outputs \<Rightarrow> outputs" where
  "TensorMode_list_outputs ext outputs = outputs(''out_file'' \<mapsto> Filename (gen_filename ext ''mode''))"

subsection \<open>The adapters by name\<close>

fun run_interface ::
  "adapter \<Rightarrow> 'v env \<Rightarrow> inputs \<Rightarrow> 'r \<Rightarrow> 'v files \<Rightarrow> (error + 'r) \<times> 'v files \<times> 'v event list" where
  "run_interface DKI = DKI_run_interface"
| "run_interface DTI = DTI_run_interface"
| "run_interface TensorMode = TensorMode_run_interface"

fun list_outputs :: "adapter \<Rightarrow> 'v env \<Rightarrow> outputs \<Rightarrow> outputs" where
  "list_outputs DKI = DKI_list_outputs"
| "list_outputs DTI = DTI_list_outputs"
| "list_outputs TensorMode = TensorMode_list_outputs"

text \<open>The model class each adapter fits.\<close>

fun model_of :: "adapter \<Rightarrow> model" where
  "model_of DKI = DiffusionKurtosisModel"
| "model_of DTI = TensorModel"
| "model_of TensorMode = TensorModel"

subsection \<open>Reading a run's events\<close>

fun loads :: "'v event list \<Rightarrow> path list" where
  "loads [] = []"
| "loads (Load p # es) = p # loads es"
| "loads (_ # es) = loads es"

fun fit_calls :: "'v event list \<Rightarrow> (model \<times> 'v \<times> 'v \<times> 'v option) list" where
  "fit_calls [] = []"
| "fit_calls (Fit k g d m # es) = (k, g, d, m) # fit_calls es"
| "fit_calls (_ # es) = fit_calls es"

fun saves :: "'v event list \<Rightarrow> (path \<times> 'v nifti) list" where
  "saves [] = []"
| "saves (Save p img # es) = (p, img) # saves es"
| "saves (_ # es) = saves es"



text \<open>
  The property that the mask of the fit is the mask file: when \<open>mask_file\<close> is set to
  \<open>m\<close>, the run loads \<open>m\<close> and every fit it calls gets the data of the image stored at
  \<open>m\<close> as its mask.
\<close>

definition mask_from_file :: "'v files \<Rightarrow> inputs \<Rightarrow> 'v event list \<Rightarrow> bool" where
  "mask_from_file fs inp es =
     (case mask_file inp of
        None \<Rightarrow> True
      | Some m \<Rightarrow>
          m \<in> set (loads es) \<and>
          list_all (\<lambda>(k, gtab, data, msk).
                      case fs m of None \<Rightarrow> False | Some mi \<Rightarrow> msk = Some (get_data mi))
            (fit_calls es))"

subsection \<open>A sample library and sample inputs\<close>

text \<open>
  A concrete environment to run the adapters in. Its library is free: every call builds a
  value that records the call and its arguments, so two results are equal only when they
  were computed the same way. Arrays are lists of voxels, each voxel the list of its values
  along the last axis; \<open>array[..., 0]\<close> and \<open>array > n\<close> are computed on them. A fit has
  the attributes dipy gives it (the seven metrics and \<open>mode\<close>) and none called \<open>metric\<close>.
\<close>

datatype pyobj =
    Array "int list list"
  | GradientTable
  | ModelFit model pyobj pyobj "pyobj option"
  | Attribute pyobj string
  | LowerTriangular pyobj
  | AsType pyobj string

fun sample_last_axis_0 :: "pyobj \<Rightarrow> error + pyobj" where
  "sample_last_axis_0 (Array vs) =
     (if [] \<in> set vs then Inl IndexError else Inr (Array (map (\<lambda>v. [hd v]) vs)))"
| "sample_last_axis_0 _ = Inl IndexError"

fun sample_gt_scalar :: "pyobj \<Rightarrow> int \<Rightarrow> pyobj" where
  "sample_gt_scalar (Array vs) n = Array (map (map (\<lambda>x. if x > n then 1 else 0)) vs)"
| "sample_gt_scalar obj n = obj"

definition sample_env :: "pyobj env" where
  "sample_env =
     \<lparr> get_gradient_table = Inr GradientTable,
       gen_filename = (\<lambda>name. ''/out/dwi_'' @ name @ ''.nii''),
       model_fit = (\<lambda>k gtab data msk. Inr (ModelFit k gtab data msk)),
       lower_triangular = LowerTriangular,
       nifti1_symmat = Nifti1Image,
       py_getattr = (\<lambda>obj name.
          if name \<in> set [''fa'', ''md'', ''rd'', ''ad'', ''mk'', ''ak'', ''rk'', ''mode'']
          then Some (Attribute obj name) else None),
       astype = AsType,
       last_axis_0 = sample_last_axis_0,
       gt_scalar = sample_gt_scalar,
       writable = (\<lambda>p. True) \<rparr>"

text \<open>
  Two files: a diffusion image of two voxels with two values each, and a mask that keeps
  both voxels (the threshold \<open>> 50\<close> on the first volume keeps only the first).
\<close>

definition sample_files :: "pyobj files" where
  "sample_files =
     [''dwi.nii'' \<mapsto> Nifti1Image (Array [[60, 12], [40, 9]]) (Array [[1, 0], [0, 1]]),
      ''mask.nii'' \<mapsto> Nifti1Image (Array [[1], [1]]) (Array [[1, 0], [0, 1]])]"

definition sample_inputs :: inputs where
  "sample_inputs = \<lparr> in_file = ''dwi.nii'', mask_file = None \<rparr>"

definition sample_masked :: inputs where
  "sample_masked = \<lparr> in_file = ''dwi.nii'', mask_file = Some ''mask.nii'' \<rparr>"

section \<open>Reasoning about runs\<close>

subsection \<open>Events of a sequence\<close>

lemma loads_append: "loads (xs @ ys) = loads xs @ loads ys"
  by (induction xs rule: loads.induct) simp_all

lemma fit_calls_append: "fit_calls (xs @ ys) = fit_calls xs @ fit_calls ys"
  by (induction xs rule: fit_calls.induct) simp_all

lemma saves_append: "saves (xs @ ys) = saves xs @ saves ys"
  by (induction xs rule: saves.induct) simp_all


lemma events_of_tuple: "events_of (r, fs, es) = es"
  by (simp add: events_of_def)

lemma result_of_tuple: "result_of (r, fs, es) = r"
  by (simp add: result_of_def)

lemma files_of_tuple: "files_of (r, fs, es) = fs"
  by (simp add: files_of_def)

text \<open>
  The events of \<open>andthen m k\<close> are those of \<open>m\<close>, followed by those of \<open>k\<close> when \<open>m\<close>
  did not raise; its result is that of \<open>k\<close>, or the exception of \<open>m\<close>.
\<close>

lemma events_of_andthen:
  "events_of (andthen m k fs) =
     events_of (m fs) @
     (case result_of (m fs) of Inl e \<Rightarrow> [] | Inr x \<Rightarrow> events_of (k x (files_of (m fs))))"
  by (simp add: andthen_def events_of_def result_of_def files_of_def split: prod.splits sum.splits)

lemma result_of_andthen:
  "result_of (andthen m k fs) =
     (case result_of (m fs) of Inl e \<Rightarrow> Inl e | Inr x \<Rightarrow> result_of (k x (files_of (m fs))))"
  by (simp add: andthen_def result_of_def files_of_def split: prod.splits sum.splits)

text \<open>\<open>DTI\<close> binds a specification with the trait \<open>mask_file\<close>; \<open>DKI\<close> binds none.\<close>

lemma read_mask_file_DTI: "read_input DTI ''mask_file'' v = Inr v"
  by (simp add: read_input_def input_traits_def)

lemma read_mask_file_DKI: "read_input DKI ''mask_file'' v = Inl (AttributeError ''mask_file'')"
  by (simp add: read_input_def input_traits_def base_input_traits_def)

lemma load_mask_DTI:
  "load_mask DTI inp fs =
     (case mask_file inp of
        None \<Rightarrow> (Inr None, fs, [])
      | Some m \<Rightarrow>
          (case fs m of
             None \<Rightarrow> (Inl (IOError m), fs, [Load m])
           | Some mi \<Rightarrow> (Inr (Some (get_data mi)), fs, [Load m])))"
  by (simp add: load_mask_def read_mask_file_DTI andthen_def lift_def ret_def nb_load_def
      split: option.splits)

lemma load_mask_DKI: "load_mask DKI inp fs = (Inl (AttributeError ''mask_file''), fs, [])"
  by (simp add: load_mask_def read_mask_file_DKI andthen_def lift_def)

text \<open>\<open>run_defs\<close> evaluates a run on concrete inputs; \<open>step_defs\<close> walks through one
  step by step, keeping the loops folded.\<close>

lemmas run_defs = andthen_def lift_def ret_def nb_load_def nb_save_def fit_model_def info_def
  getattr2_def getattr1_def load_mask_def read_input_def input_traits_def base_input_traits_def
  result_of_def events_of_def files_of_def Let_def

lemmas step_defs = events_of_andthen events_of_tuple result_of_tuple files_of_tuple lift_def
  ret_def nb_load_def nb_save_def fit_model_def info_def getattr2_def getattr1_def
  load_mask_DTI load_mask_DKI Let_def

lemmas sample_defs = sample_env_def sample_files_def sample_inputs_def sample_masked_def



subsection \<open>The loops\<close>

text \<open>The loop of \<open>DKI\<close> stops in its first round, before it writes or logs anything.\<close>

lemma DKI_metrics_events: "events_of (DKI_metrics ext f aff ms fs) = []"
  by (cases ms) (simp_all add: run_defs split: option.splits)

lemma DKI_metrics_result:
  "ms \<noteq> [] \<Longrightarrow> \<exists>e. result_of (DKI_metrics ext f aff ms fs) = Inl e"
  by (cases ms)
    (simp_all add: result_of_andthen result_of_tuple lift_def getattr2_def getattr1_def
       split: option.splits)

lemma DTI_metrics_loads: "loads (events_of (DTI_metrics ext f aff ms fs)) = []"
  by (induction ms arbitrary: fs) (simp_all add: step_defs loads_append split: option.splits)

lemma DTI_metrics_fit_calls: "fit_calls (events_of (DTI_metrics ext f aff ms fs)) = []"
  by (induction ms arbitrary: fs) (simp_all add: step_defs fit_calls_append split: option.splits)

text \<open>Every volume the loop of \<open>DTI\<close> writes is the attribute of a metric, cast to float32.\<close>

lemma DTI_metrics_saves:
  "(p, img) \<in> set (saves (events_of (DTI_metrics ext f aff ms fs))) \<Longrightarrow>
   \<exists>metric v. metric \<in> set ms \<and> py_getattr ext f metric = Some v \<and>
     p = gen_filename ext metric \<and> img = Nifti1Image (astype ext v ''float32'') aff"
proof (induction ms arbitrary: fs)
  case Nil
  then show ?case by (simp add: run_defs)
next
  case (Cons metric ms)
  show ?case
  proof (cases "py_getattr ext f metric")
    case None
    with Cons.prems show ?thesis by (simp add: run_defs)
  next
    case (Some v)
    show ?thesis
    proof (cases "writable ext (gen_filename ext metric)")
      case False
      with Some Cons.prems show ?thesis by (simp add: run_defs)
    next
      case True
      let ?fs = "fs(gen_filename ext metric \<mapsto> Nifti1Image (astype ext v ''float32'') aff)"
      from Some True Cons.prems
      have "(p, img) = (gen_filename ext metric, Nifti1Image (astype ext v ''float32'') aff) \<or>
            (p, img) \<in> set (saves (events_of (DTI_metrics ext f aff ms ?fs)))"
        by (auto simp: run_defs saves_append split: prod.splits)
      then show ?thesis
      proof
        assume "(p, img) = (gen_filename ext metric, Nifti1Image (astype ext v ''float32'') aff)"
        with Some show ?thesis by auto
      next
        assume "(p, img) \<in> set (saves (events_of (DTI_metrics ext f aff ms ?fs)))"
        from Cons.IH [OF this] show ?thesis by auto
      qed
    qed
  qed
qed

lemma DTI_metrics_files:
  "result_of (DTI_metrics ext f aff ms fs) = Inr () \<Longrightarrow>
   map fst (saves (events_of (DTI_metrics ext f aff ms fs))) = map (gen_filename ext) ms"
proof (induction ms arbitrary: fs)
  case Nil
  then show ?case by (simp add: step_defs)
next
  case (Cons metric ms)
  from Cons.prems show ?case
    by (auto simp add: step_defs result_of_andthen saves_append
        intro: Cons.IH split: option.splits sum.splits if_splits)
qed


subsection \<open>What each run loads, fits and writes\<close>

lemma DTI_fit_calls:
  "fit_calls (events_of (DTI_run_interface ext inp rt fs)) =
     (case get_gradient_table ext of
        Inl e \<Rightarrow> []
      | Inr gtab \<Rightarrow>
          (case fs (in_file inp) of
             None \<Rightarrow> []
           | Some img \<Rightarrow>
               (case mask_file inp of
                  None \<Rightarrow> [(TensorModel, gtab, get_data img, None)]
                | Some m \<Rightarrow>
                    (case fs m of
                       None \<Rightarrow> []
                     | Some mi \<Rightarrow> [(TensorModel, gtab, get_data img, Some (get_data mi))]))))"
  unfolding DTI_run_interface_def
  by (simp add: step_defs fit_calls_append DTI_metrics_fit_calls del: DTI_metrics.simps
      split: option.splits sum.splits)

text \<open>\<open>DKI\<close> stops at the read of \<open>mask_file\<close>: it calls no fit and writes no file.\<close>

lemma DKI_fit_calls: "fit_calls (events_of (DKI_run_interface ext inp rt fs)) = []"
  unfolding DKI_run_interface_def
  by (simp add: step_defs fit_calls_append del: DKI_metrics.simps
      split: option.splits sum.splits)

lemma DTI_loads:
  "loads (events_of (DTI_run_interface ext inp rt fs)) =
     (case get_gradient_table ext of
        Inl e \<Rightarrow> []
      | Inr gtab \<Rightarrow>
          (case fs (in_file inp) of
             None \<Rightarrow> [in_file inp]
           | Some img \<Rightarrow>
               (case mask_file inp of
                  None \<Rightarrow> [in_file inp]
                | Some m \<Rightarrow> [in_file inp, m])))"
  unfolding DTI_run_interface_def
  by (simp add: step_defs loads_append DTI_metrics_loads del: DTI_metrics.simps
      split: option.splits sum.splits)

lemma DKI_loads:
  "loads (events_of (DKI_run_interface ext inp rt fs)) =
     (case get_gradient_table ext of Inl e \<Rightarrow> [] | Inr gtab \<Rightarrow> [in_file inp])"
  unfolding DKI_run_interface_def
  by (simp add: step_defs loads_append del: DKI_metrics.simps split: option.splits sum.splits)

text \<open>
  The files a run writes: none, or the tensor parameters image followed by what the loop
  writes (\<open>DTI\<close>); none (\<open>DKI\<close>); none or the mode image (\<open>TensorMode\<close>).
\<close>

lemma DTI_saves:
  "saves (events_of (DTI_run_interface ext inp rt fs)) = [] \<or>
   (\<exists>gtab i0 msk f.
      fs (in_file inp) = Some i0 \<and>
      model_fit ext TensorModel gtab (get_data i0) msk = Inr f \<and>
      saves (events_of (DTI_run_interface ext inp rt fs)) =
        (gen_filename ext ''dti'', nifti1_symmat ext (lower_triangular ext f) (affine i0)) #
        saves (events_of (DTI_metrics ext f (affine i0) [''fa'', ''md'', ''rd'', ''ad'']
          (fs(gen_filename ext ''dti'' \<mapsto>
                nifti1_symmat ext (lower_triangular ext f) (affine i0))))))"
  unfolding DTI_run_interface_def
  by (auto simp add: step_defs saves_append simp del: DTI_metrics.simps
      split: option.splits sum.splits)

lemma DKI_saves: "saves (events_of (DKI_run_interface ext inp rt fs)) = []"
  unfolding DKI_run_interface_def
  by (simp add: step_defs saves_append del: DKI_metrics.simps split: option.splits sum.splits)

lemma TensorMode_saves:
  "saves (events_of (TensorMode_run_interface ext inp rt fs)) = [] \<or>
   (\<exists>i0 d.
      fs (in_file inp) = Some i0 \<and>
      saves (events_of (TensorMode_run_interface ext inp rt fs)) =
        [(gen_filename ext ''mode'', Nifti1Image d (affine i0))])"
  unfolding TensorMode_run_interface_def
  by (auto simp add: step_defs saves_append split: option.splits sum.splits)

section \<open>The claims\<close>

subsection \<open>C1: DKI extracts and writes the seven metrics\<close>

text \<open>
  C1 says that \<open>DKI._run_interface\<close> extracts the attribute of each metric name from the
  fitted model, writes it to a volume of its own and completes without raising when the
  fit succeeds. The code does not. The loop evaluates \<open>getattr(kurtosis_fit.metric)\<close>,
  which raises AttributeError when the fit has no attribute called \<open>metric\<close> and
  TypeError otherwise: for every fit the loop raises in its first round and emits nothing.
  The run does not get that far: \<open>DKI\<close> binds no input specification (C4), so the read
  of \<open>mask_file\<close> raises. So \<open>DKI._run_interface\<close> raises and writes no file, for every
  environment, input and set of files. With the sample library the run ends with the
  AttributeError for \<open>mask_file\<close>, and the loop alone, given a fit, with the one for
  \<open>metric\<close>.
\<close>

theorem DKI_run_interface_raises:
  "(\<exists>e. result_of (DKI_run_interface ext inp rt fs) = Inl e) \<and>
   saves (events_of (DKI_run_interface ext inp rt fs)) = [] \<and>
   (\<exists>e. result_of (DKI_metrics ext f aff
           [''fa'', ''md'', ''rd'', ''ad'', ''mk'', ''ak'', ''rk''] fs) = Inl e) \<and>
   events_of (DKI_metrics ext f aff
     [''fa'', ''md'', ''rd'', ''ad'', ''mk'', ''ak'', ''rk''] fs) = [] \<and>
   result_of (DKI_run_interface sample_env sample_inputs () sample_files)
     = Inl (AttributeError ''mask_file'') \<and>
   result_of (DKI_metrics sample_env
       (ModelFit DiffusionKurtosisModel GradientTable (Array [[60, 12], [40, 9]]) None)
       (Array [[1, 0], [0, 1]])
       [''fa'', ''md'', ''rd'', ''ad'', ''mk'', ''ak'', ''rk''] sample_files)
     = Inl (AttributeError ''metric'')"
proof (intro conjI)
  show "\<exists>e. result_of (DKI_run_interface ext inp rt fs) = Inl e"
    unfolding DKI_run_interface_def
    by (auto simp: run_defs split: option.splits sum.splits prod.splits)
  show "saves (events_of (DKI_run_interface ext inp rt fs)) = []"
    by (rule DKI_saves)
  show "\<exists>e. result_of (DKI_metrics ext f aff
           [''fa'', ''md'', ''rd'', ''ad'', ''mk'', ''ak'', ''rk''] fs) = Inl e"
    by (rule DKI_metrics_result) simp
  show "events_of (DKI_metrics ext f aff
     [''fa'', ''md'', ''rd'', ''ad'', ''mk'', ''ak'', ''rk''] fs) = []"
    by (rule DKI_metrics_events)
  show "result_of (DKI_run_interface sample_env sample_inputs () sample_files)
     = Inl (AttributeError ''mask_file'')"
    by (simp add: DKI_run_interface_def run_defs sample_defs)
  show "result_of (DKI_metrics sample_env
       (ModelFit DiffusionKurtosisModel GradientTable (Array [[60, 12], [40, 9]]) None)
       (Array [[1, 0], [0, 1]])
       [''fa'', ''md'', ''rd'', ''ad'', ''mk'', ''ak'', ''rk''] sample_files)
     = Inl (AttributeError ''metric'')"
    by (simp add: run_defs sample_defs)
qed

subsection \<open>C2: the mask file is the mask of the fit\<close>

text \<open>
  C2 says that for each of the three adapters, whenever \<open>mask_file\<close> is set, the run loads
  that file and passes the volume loaded from it to the fit as the mask. \<open>TensorMode\<close>
  declares \<open>mask_file\<close> and does not read it: with \<open>mask_file\<close> set to a mask that keeps
  both voxels, it loads the diffusion image only and fits with the threshold mask, which
  keeps one voxel.
\<close>

theorem TensorMode_ignores_mask_file:
  "mask_file sample_masked = Some ''mask.nii'' \<and>
   sample_files ''mask.nii'' = Some (Nifti1Image (Array [[1], [1]]) (Array [[1, 0], [0, 1]])) \<and>
   loads (events_of (TensorMode_run_interface sample_env sample_masked () sample_files))
     = [''dwi.nii''] \<and>
   fit_calls (events_of (TensorMode_run_interface sample_env sample_masked () sample_files))
     = [(TensorModel, GradientTable, Array [[60, 12], [40, 9]], Some (Array [[1], [0]]))] \<and>
   \<not> mask_from_file sample_files sample_masked
       (events_of (TensorMode_run_interface sample_env sample_masked () sample_files))"
  by (simp add: TensorMode_run_interface_def run_defs sample_defs mask_from_file_def)

text \<open>
  \<open>DTI\<close> does what C2 says: when \<open>mask_file\<close> is set to \<open>m\<close>, the run loads \<open>m\<close> right
  after the input image, once the gradient table is built and the input image is loaded,
  and the one fit it then calls gets the data of the image stored at \<open>m\<close> as its mask.
  \<open>DKI\<close> never loads a mask and never fits (\<open>DKI_loads\<close>, \<open>DKI_fit_calls\<close>).
\<close>

lemma DTI_mask_file_passed_to_fit:
  assumes "mask_file inp = Some m"
  shows "fit_calls (events_of (DTI_run_interface ext inp rt fs)) =
           (case get_gradient_table ext of
              Inl e \<Rightarrow> []
            | Inr gtab \<Rightarrow>
                (case fs (in_file inp) of
                   None \<Rightarrow> []
                 | Some img \<Rightarrow>
                     (case fs m of
                        None \<Rightarrow> []
                      | Some mi \<Rightarrow> [(TensorModel, gtab, get_data img, Some (get_data mi))]))) \<and>
         loads (events_of (DTI_run_interface ext inp rt fs)) =
           (case get_gradient_table ext of
              Inl e \<Rightarrow> []
            | Inr gtab \<Rightarrow>
                (case fs (in_file inp) of
                   None \<Rightarrow> [in_file inp]
                 | Some img \<Rightarrow> [in_file inp, m]))"
  using assms
  by (auto simp: DTI_fit_calls DTI_loads split: sum.splits option.splits)

lemma DTI_mask_file_passed_to_fit_sample:
  "mask_file sample_masked = Some ''mask.nii'' \<and>
   fit_calls (events_of (DTI_run_interface sample_env sample_masked () sample_files)) =
     [(TensorModel, GradientTable, Array [[60, 12], [40, 9]], Some (Array [[1], [1]]))] \<and>
   loads (events_of (DTI_run_interface sample_env sample_masked () sample_files)) =
     [''dwi.nii'', ''mask.nii'']"
proof -
  have m: "mask_file sample_masked = Some ''mask.nii''" by (simp add: sample_masked_def)
  note run = DTI_mask_file_passed_to_fit [OF m, of sample_env "()" sample_files]
  have "fit_calls (events_of (DTI_run_interface sample_env sample_masked () sample_files)) =
     [(TensorModel, GradientTable, Array [[60, 12], [40, 9]], Some (Array [[1], [1]]))]"
    unfolding conjunct1 [OF run] by (simp add: sample_defs)
  moreover
  have "loads (events_of (DTI_run_interface sample_env sample_masked () sample_files)) =
     [''dwi.nii'', ''mask.nii'']"
    unfolding conjunct2 [OF run] by (simp add: sample_defs)
  ultimately show ?thesis using m by blast
qed

lemma DTI_mask_from_file:
  assumes "get_gradient_table ext = Inr gtab" and "fs (in_file inp) = Some img"
  shows "mask_from_file fs inp (events_of (DTI_run_interface ext inp rt fs))"
  using assms
  by (auto simp: mask_from_file_def DTI_fit_calls DTI_loads split: option.splits)

subsection \<open>C3: every declared output slot gets a filename\<close>

text \<open>
  C3 says that \<open>_list_outputs\<close> assigns a filename to every declared output slot, and names
  the slots \<open>fa_file\<close>, ..., \<open>rk_file\<close> of \<open>DKI\<close>. \<open>DKI._list_outputs\<close> stores the
  filenames under the keys \<open>fa\<close>, ..., \<open>rk\<close>: whatever the dictionary it starts from, the
  seven declared slots hold after the call what they held before.
\<close>

theorem DKI_list_outputs_misses_slots:
  "map (DKI_list_outputs ext outputs)
     [''fa_file'', ''md_file'', ''rd_file'', ''ad_file'', ''mk_file'', ''ak_file'', ''rk_file'']
   = map outputs
     [''fa_file'', ''md_file'', ''rd_file'', ''ad_file'', ''mk_file'', ''ak_file'', ''rk_file'']"
  by (simp add: DKI_list_outputs_def)

text \<open>\<open>DTI\<close> and \<open>TensorMode\<close> do fill each slot their output specification declares.\<close>

lemma DTI_list_outputs_fills_slots:
  "map (DTI_list_outputs ext outputs) (declared_traits DTIOutputSpec) =
     map (\<lambda>name. Some (Filename (gen_filename ext name))) [''dti'', ''fa'', ''md'', ''rd'', ''ad'']"
  by (simp add: DTI_list_outputs_def)

lemma TensorMode_list_outputs_fills_slots:
  "map (TensorMode_list_outputs ext outputs) (declared_traits TensorModeOutputSpec) =
     [Some (Filename (gen_filename ext ''mode''))]"
  by (simp add: TensorMode_list_outputs_def)

subsection \<open>C4: each adapter binds its specifications\<close>

text \<open>
  C4 says that each adapter class binds its input and output specification. The body of
  \<open>DKI\<close> assigns neither \<open>input_spec\<close> nor \<open>output_spec\<close>, so \<open>DKIInputSpec\<close> and
  \<open>DKIOutputSpec\<close> are defined and never used; \<open>DTI\<close> and \<open>TensorMode\<close> bind theirs.
\<close>

theorem DKI_binds_no_specs:
  "input_spec DKI = None \<and> output_spec DKI = None \<and>
   input_spec DTI = Some DTIInputSpec \<and> output_spec DTI = Some DTIOutputSpec \<and>
   input_spec TensorMode = Some TensorModeInputSpec \<and>
   output_spec TensorMode = Some TensorModeOutputSpec"
  by simp

subsection \<open>C5: every written file is named in a log line\<close>



text \<open>
  The log line \<open>DKI\<close> has for its tensor parameters image is a constant, the call of
  \<open>format\<close> being inside the string, and does not contain the name generated for the
  image. No run reaches that line: \<open>DKI\<close> raises at the read of \<open>mask_file\<close>, before it
  writes anything (\<open>DKI_saves\<close>).
\<close>

lemma DKI_parameters_line_is_constant:
  "\<not> sublist (gen_filename sample_env ''dki'')
       ''DKI parameters image saved as {i}.format(i=out_file)''"
  by (simp add: sample_env_def sublist_Cons_right)



subsection \<open>C6: every written volume carries the affine of the input image\<close>

text \<open>
  C6: every volume an adapter writes is constructed with the affine of the image loaded
  from \<open>in_file\<close>. For every adapter, environment and input, each image the run writes
  is \<open>Nifti1Image d aff\<close> or \<open>nifti1_symmat d aff\<close> for some data \<open>d\<close>, where \<open>aff\<close> is the
  affine of the image stored at \<open>in_file\<close>.
\<close>

theorem outputs_built_with_input_affine:
  assumes "(p, img) \<in> set (saves (events_of (run_interface a ext inp rt fs)))"
  shows "\<exists>i0 d. fs (in_file inp) = Some i0 \<and>
           (img = Nifti1Image d (affine i0) \<or> img = nifti1_symmat ext d (affine i0))"
proof (cases a)
  case DKI
  with assms show ?thesis by (simp add: DKI_saves)
next
  case DTI
  with assms DTI_saves [of ext inp rt fs]
  obtain gtab i0 msk f where i0: "fs (in_file inp) = Some i0"
    and "(p, img) =
           (gen_filename ext ''dti'', nifti1_symmat ext (lower_triangular ext f) (affine i0)) \<or>
         (p, img) \<in> set (saves (events_of
           (DTI_metrics ext f (affine i0) [''fa'', ''md'', ''rd'', ''ad'']
             (fs(gen_filename ext ''dti'' \<mapsto>
                   nifti1_symmat ext (lower_triangular ext f) (affine i0))))))"
    by auto
  then show ?thesis
  proof (elim disjE)
    assume "(p, img) =
      (gen_filename ext ''dti'', nifti1_symmat ext (lower_triangular ext f) (affine i0))"
    with i0 show ?thesis by auto
  next
    assume "(p, img) \<in> set (saves (events_of
           (DTI_metrics ext f (affine i0) [''fa'', ''md'', ''rd'', ''ad'']
             (fs(gen_filename ext ''dti'' \<mapsto>
                   nifti1_symmat ext (lower_triangular ext f) (affine i0))))))"
    from DTI_metrics_saves [OF this] i0 show ?thesis by blast
  qed
next
  case TensorMode
  with assms TensorMode_saves [of ext inp rt fs] show ?thesis by auto
qed

theorem outputs_built_with_input_affine_witness:
  "(''/out/dwi_fa.nii'',
    Nifti1Image
      (AsType (Attribute (ModelFit TensorModel GradientTable (Array [[60, 12], [40, 9]]) None)
         ''fa'') ''float32'')
      (Array [[1, 0], [0, 1]]))
     \<in> set (saves (events_of (run_interface DTI sample_env sample_inputs () sample_files))) \<and>
   (\<exists>i0 d. sample_files (in_file sample_inputs) = Some i0 \<and>
      (Nifti1Image
         (AsType (Attribute (ModelFit TensorModel GradientTable (Array [[60, 12], [40, 9]]) None)
            ''fa'') ''float32'')
         (Array [[1, 0], [0, 1]]) = Nifti1Image d (affine i0) \<or>
       Nifti1Image
         (AsType (Attribute (ModelFit TensorModel GradientTable (Array [[60, 12], [40, 9]]) None)
            ''fa'') ''float32'')
         (Array [[1, 0], [0, 1]]) = nifti1_symmat sample_env d (affine i0)))"
proof -
  have h: "(''/out/dwi_fa.nii'',
    Nifti1Image
      (AsType (Attribute (ModelFit TensorModel GradientTable (Array [[60, 12], [40, 9]]) None)
         ''fa'') ''float32'')
      (Array [[1, 0], [0, 1]]))
     \<in> set (saves (events_of (run_interface DTI sample_env sample_inputs () sample_files)))"
    by (simp add: DTI_run_interface_def run_defs sample_defs)
  from h outputs_built_with_input_affine [OF h] show ?thesis by (rule conjI)
qed

subsection \<open>C7: the files listed are the files written\<close>

text \<open>
  C7 says that filenames are generated deterministically, so that for each adapter the
  filenames \<open>_list_outputs\<close> returns are the filenames \<open>_run_interface\<close> writes. Both call
  \<open>_gen_filename\<close> with the same names, but \<open>DKI._run_interface\<close> raises before it writes
  any file (C1): for every input it writes none, and with the sample library
  \<open>DKI._list_outputs\<close> returns eight filenames.
\<close>

theorem DKI_lists_files_it_never_writes:
  "map fst (saves (events_of (DKI_run_interface ext inp rt fs))) = [] \<and>
   map fst (saves (events_of (DKI_run_interface sample_env sample_inputs () sample_files))) = [] \<and>
   map (DKI_list_outputs sample_env Map.empty)
     [''out_file'', ''fa'', ''md'', ''rd'', ''ad'', ''mk'', ''ak'', ''rk''] =
     map (\<lambda>p. Some (Filename p))
       [''/out/dwi_dki.nii'', ''/out/dwi_fa.nii'', ''/out/dwi_md.nii'', ''/out/dwi_rd.nii'',
        ''/out/dwi_ad.nii'', ''/out/dwi_mk.nii'', ''/out/dwi_ak.nii'', ''/out/dwi_rk.nii'']"
  by (simp add: DKI_saves sample_env_def DKI_list_outputs_def)

text \<open>
  A run of \<open>DTI\<close> or \<open>TensorMode\<close> that returns has written exactly the files its
  \<open>_list_outputs\<close> returns (see \<open>DTI_list_outputs_fills_slots\<close> and
  \<open>TensorMode_list_outputs_fills_slots\<close>).
\<close>

lemma DTI_written_files:
  assumes "result_of (DTI_run_interface ext inp rt fs) = Inr r"
  shows "map fst (saves (events_of (DTI_run_interface ext inp rt fs))) =
           map (gen_filename ext) [''dti'', ''fa'', ''md'', ''rd'', ''ad'']"
  using assms unfolding DTI_run_interface_def
  by (auto simp add: step_defs result_of_andthen saves_append
        simp del: DTI_metrics.simps dest: DTI_metrics_files
        split: option.splits sum.splits if_splits)

lemma TensorMode_written_files:
  assumes "result_of (TensorMode_run_interface ext inp rt fs) = Inr r"
  shows "map fst (saves (events_of (TensorMode_run_interface ext inp rt fs))) =
           [gen_filename ext ''mode'']"
  using assms unfolding TensorMode_run_interface_def
  by (auto simp add: step_defs result_of_andthen saves_append
        split: option.splits sum.splits if_splits)

subsection \<open>C8: the mask of TensorMode is a threshold of the data\<close>

text \<open>
  C8: \<open>TensorMode\<close> fits with the mask \<open>data[..., 0] > 50\<close> and never reads \<open>mask_file\<close>.
  For every environment, input and set of files: the run calls the fit at most once, when
  the image is loaded, the gradient table built and \<open>data[..., 0]\<close> taken, and then with
  the mask \<open>gt_scalar (data[..., 0]) 50\<close>; the one file it loads is \<open>in_file\<close>; and the
  whole outcome of the run is the same for every value of \<open>mask_file\<close>.
\<close>

theorem TensorMode_mask_is_threshold:
  "fit_calls (events_of (TensorMode_run_interface ext inp rt fs)) =
     (case fs (in_file inp) of
        None \<Rightarrow> []
      | Some img \<Rightarrow>
          (case get_gradient_table ext of
             Inl e \<Rightarrow> []
           | Inr gtab \<Rightarrow>
               (case last_axis_0 ext (get_data img) of
                  Inl e \<Rightarrow> []
                | Inr first \<Rightarrow>
                    [(TensorModel, gtab, get_data img, Some (gt_scalar ext first 50))]))) \<and>
   loads (events_of (TensorMode_run_interface ext inp rt fs)) = [in_file inp] \<and>
   TensorMode_run_interface ext (inp\<lparr>mask_file := m\<rparr>) rt fs =
     TensorMode_run_interface ext inp rt fs"
  unfolding TensorMode_run_interface_def
  by (simp add: step_defs fit_calls_append loads_append split: option.splits sum.splits)

subsection \<open>C9: without a mask file the fit gets no mask\<close>

text \<open>
  C9 says that for \<open>DTI\<close> and \<open>DKI\<close>, when \<open>mask_file\<close> is not set, the fit is called
  with the mask \<open>None\<close>. \<open>DKI\<close> calls no fit, for any input: its class binds no input
  specification (C4), so the read of \<open>mask_file\<close> raises before the fit; with the sample
  inputs, \<open>mask_file\<close> unset, the run loads the image and ends with that AttributeError.
  \<open>DTI\<close> with \<open>mask_file\<close> unset calls the fit exactly once, with the gradient table, the
  data of the input image and no mask, whenever the gradient table is built and the image
  is loaded, and calls no fit otherwise.
\<close>

theorem DKI_raises_before_fit:
  "fit_calls (events_of (DKI_run_interface ext inp rt fs)) = [] \<and>
   mask_file sample_inputs = None \<and>
   events_of (DKI_run_interface sample_env sample_inputs () sample_files) = [Load ''dwi.nii''] \<and>
   result_of (DKI_run_interface sample_env sample_inputs () sample_files)
     = Inl (AttributeError ''mask_file'') \<and>
   fit_calls (events_of (DTI_run_interface ext (inp\<lparr>mask_file := None\<rparr>) rt fs)) =
     (case get_gradient_table ext of
        Inl e \<Rightarrow> []
      | Inr gtab \<Rightarrow>
          (case fs (in_file inp) of
             None \<Rightarrow> []
           | Some img \<Rightarrow> [(TensorModel, gtab, get_data img, None)]))"
proof (intro conjI)
  show "fit_calls (events_of (DKI_run_interface ext inp rt fs)) = []"
    by (rule DKI_fit_calls)
  show "mask_file sample_inputs = None"
    by (simp add: sample_inputs_def)
  show "events_of (DKI_run_interface sample_env sample_inputs () sample_files) = [Load ''dwi.nii'']"
    by (simp add: DKI_run_interface_def run_defs sample_defs)
  show "result_of (DKI_run_interface sample_env sample_inputs () sample_files)
     = Inl (AttributeError ''mask_file'')"
    by (simp add: DKI_run_interface_def run_defs sample_defs)
  show "fit_calls (events_of (DTI_run_interface ext (inp\<lparr>mask_file := None\<rparr>) rt fs)) =
     (case get_gradient_table ext of
        Inl e \<Rightarrow> []
      | Inr gtab \<Rightarrow>
          (case fs (in_file inp) of
             None \<Rightarrow> []
           | Some img \<Rightarrow> [(TensorModel, gtab, get_data img, None)]))"
    by (simp add: DTI_fit_calls split: sum.splits option.splits)
qed

lemma DTI_fit_without_mask_sample:
  "mask_file sample_inputs = None \<and>
   fit_calls (events_of (DTI_run_interface sample_env sample_inputs () sample_files)) =
     [(TensorModel, GradientTable, Array [[60, 12], [40, 9]], None)]"
  by (simp add: DTI_fit_calls sample_defs)

subsection \<open>C10: the metric volumes are float32\<close>

text \<open>
  C10: every per-metric volume \<open>DTI\<close> and \<open>DKI\<close> write is cast to float32 first. The
  per-metric volumes are the files a run writes after its first, the tensor parameters
  image: each is \<open>Nifti1Image (v.astype('float32')) aff\<close> for an attribute \<open>v\<close> of a fit,
  under the name generated for that attribute. (\<open>DKI\<close> writes no volume at all, see C1.)
\<close>

theorem metric_volumes_cast_to_float32:
  assumes "a = DTI \<or> a = DKI"
    and "(p, img) \<in> set (tl (saves (events_of (run_interface a ext inp rt fs))))"
  shows "\<exists>f metric v aff. py_getattr ext f metric = Some v \<and> p = gen_filename ext metric \<and>
           img = Nifti1Image (astype ext v ''float32'') aff"
  using assms(1)
proof
  assume a: "a = DTI"
  with assms(2) DTI_saves [of ext inp rt fs]
  obtain f aff fs' where
    "(p, img) \<in> set (saves (events_of (DTI_metrics ext f aff [''fa'', ''md'', ''rd'', ''ad''] fs')))"
    by auto
  from DTI_metrics_saves [OF this] show ?thesis by blast
next
  assume "a = DKI"
  with assms(2) show ?thesis by (simp add: DKI_saves)
qed

theorem metric_volumes_cast_to_float32_witness:
  "(DTI = DTI \<or> DTI = DKI) \<and>
   (''/out/dwi_md.nii'',
    Nifti1Image
      (AsType (Attribute (ModelFit TensorModel GradientTable (Array [[60, 12], [40, 9]]) None)
         ''md'') ''float32'')
      (Array [[1, 0], [0, 1]]))
     \<in> set (tl (saves (events_of (run_interface DTI sample_env sample_inputs () sample_files)))) \<and>
   (\<exists>f metric v aff. py_getattr sample_env f metric = Some v \<and>
      ''/out/dwi_md.nii'' = gen_filename sample_env metric \<and>
      Nifti1Image
        (AsType (Attribute (ModelFit TensorModel GradientTable (Array [[60, 12], [40, 9]]) None)
           ''md'') ''float32'')
        (Array [[1, 0], [0, 1]]) = Nifti1Image (astype sample_env v ''float32'') aff)"
proof -
  have a: "DTI = DTI \<or> DTI = DKI" by simp
  have h: "(''/out/dwi_md.nii'',
    Nifti1Image
      (AsType (Attribute (ModelFit TensorModel GradientTable (Array [[60, 12], [40, 9]]) None)
         ''md'') ''float32'')
      (Array [[1, 0], [0, 1]]))
     \<in> set (tl (saves (events_of (run_interface DTI sample_env sample_inputs () sample_files))))"
    by (simp add: DTI_run_interface_def run_defs sample_defs)
  from a h metric_volumes_cast_to_float32 [OF a h] show ?thesis by (intro conjI)
qed

end
